theory Spec2Isabelle
  imports Main
begin

section \<open>JavaScript string primitives used by the client\<close>

text \<open>
  Strings are lists of code units; the model covers the code units U+0000 to U+00FF.
  \<open>is_space\<close> is the set that \<^verbatim>\<open>String.prototype.trim\<close> strips (WhiteSpace and
  LineTerminator) inside that range.
\<close>

definition newline :: char where
  "newline = CHR 0x0A"

definition is_space :: "char \<Rightarrow> bool" where
  "is_space c = (c = CHR 0x09 \<or> c = CHR 0x0A \<or> c = CHR 0x0B \<or> c = CHR 0x0C \<or> c = CHR 0x0D
     \<or> c = CHR 0x20 \<or> c = CHR 0xA0)"

definition trim :: "string \<Rightarrow> string" where
  "trim s = rev (dropWhile is_space (rev (dropWhile is_space s)))"

text \<open>\<^verbatim>\<open>s.split(c)\<close> for a one-character separator: the result is never empty.\<close>

fun split_on :: "char \<Rightarrow> string \<Rightarrow> string list" where
  "split_on c [] = [[]]"
| "split_on c (x # xs) =
     (if x = c then [] # split_on c xs
      else (case split_on c xs of [] \<Rightarrow> [[x]] | l # ls \<Rightarrow> (x # l) # ls))"

definition startsWith :: "string \<Rightarrow> string \<Rightarrow> bool" where
  "startsWith s p = (take (length p) s = p)"

text \<open>\<^verbatim>\<open>lines.pop() || ''\<close>: the last element, or the empty string when there is none.\<close>

definition pop_or_empty :: "string list \<Rightarrow> string" where
  "pop_or_empty ls = (if ls = [] then [] else last ls)"


section \<open>The SSE reader: \<^verbatim>\<open>streamChatMessage\<close> (frontend/lib/api.ts)\<close>

text \<open>
  \<^verbatim>\<open>JSON.parse\<close> is a parameter of the model: a function from the payload text to the
  parsed value, \<open>None\<close> when it raises SyntaxError. Of a parsed value the reader only
  looks at the properties \<^verbatim>\<open>content\<close> and \<^verbatim>\<open>error\<close>, which the wire protocol and the
  generator's type (\<^verbatim>\<open>AsyncGenerator<string>\<close>) declare as strings. \<open>JNull\<close> is the value
  on which a property read raises TypeError; \<open>JScalar\<close> stands for every other
  value that is not an object with these properties (both reads give undefined).
\<close>

datatype json = JNull | JScalar | JObject (content_field: "string option") (error_field: "string option")

datatype js_exn = SyntaxError | TypeError | Error string

text \<open>
  The body of the inner \<^verbatim>\<open>try\<close> block (api.ts lines 100 to 106): the strings it yields
  and the exception it ends with, if any. A string is truthy when it is not empty.
\<close>

definition try_body :: "(string \<Rightarrow> json option) \<Rightarrow> string \<Rightarrow> string list \<times> js_exn option" where
  "try_body parse data =
     (case parse data of
        None \<Rightarrow> ([], Some SyntaxError)
      | Some JNull \<Rightarrow> ([], Some TypeError)
      | Some JScalar \<Rightarrow> ([], None)
      | Some (JObject c e) \<Rightarrow>
          (let ys = (case c of None \<Rightarrow> [] | Some s \<Rightarrow> if s \<noteq> [] then [s] else [])
           in case e of
                None \<Rightarrow> (ys, None)
              | Some m \<Rightarrow> if m \<noteq> [] then (ys, Some (Error m)) else (ys, None)))"

datatype line_result = Return | Continue "string list"

text \<open>
  One iteration of \<^verbatim>\<open>for (const line of lines)\<close> (api.ts lines 85 to 111). The
  \<^verbatim>\<open>catch (e) {}\<close> clause discards whatever exception the try block ended with.
\<close>

definition handle_line :: "(string \<Rightarrow> json option) \<Rightarrow> string \<Rightarrow> line_result" where
  "handle_line parse line =
     (let trimmedLine = trim line in
      if trimmedLine = [] then Continue []
      else if startsWith trimmedLine ''data: '' then
        (let data = trim (drop 6 trimmedLine) in
         if data = ''[DONE]'' then Return
         else if data = [] then Continue []
         else Continue (fst (try_body parse data)))
      else Continue [])"

text \<open>The \<^verbatim>\<open>for\<close> loop over the complete lines: the yields, and whether it returned.\<close>

fun process_lines :: "(string \<Rightarrow> json option) \<Rightarrow> string list \<Rightarrow> string list \<times> bool" where
  "process_lines parse [] = ([], False)"
| "process_lines parse (l # ls) =
     (case handle_line parse l of
        Return \<Rightarrow> ([], True)
      | Continue ys \<Rightarrow> (case process_lines parse ls of (zs, r) \<Rightarrow> (ys @ zs, r)))"

text \<open>
  The response body is the finite list of text chunks that \<^verbatim>\<open>reader.read()\<close> delivers
  (after \<^verbatim>\<open>decoder.decode(value, {stream: true})\<close>), and how reading ends: with
  \<^verbatim>\<open>done\<close>, or with a rejected read.
\<close>

datatype read_end = EndOfStream | ReadFailed string

datatype gen_outcome = Returned | Threw string

record gen_result =
  yields :: "string list"
  outcome :: gen_outcome
  reads :: nat

record response =
  ok :: bool
  body :: "(string list \<times> read_end) option"

text \<open>
  The \<^verbatim>\<open>while (true)\<close> loop (api.ts lines 74 to 113): yields, outcome and the number
  of calls of \<^verbatim>\<open>reader.read()\<close>.
\<close>

fun read_loop :: "(string \<Rightarrow> json option) \<Rightarrow> read_end \<Rightarrow> string \<Rightarrow> string list
    \<Rightarrow> string list \<times> gen_outcome \<times> nat" where
  "read_loop parse fin buffer [] =
     (case fin of EndOfStream \<Rightarrow> ([], Returned, 1) | ReadFailed e \<Rightarrow> ([], Threw e, 1))"
| "read_loop parse fin buffer (chunk # rest) =
     (let lines = split_on newline (buffer @ chunk) in
      case process_lines parse (butlast lines) of
        (ys, returned) \<Rightarrow>
          if returned then (ys, Returned, 1)
          else (case read_loop parse fin (pop_or_empty lines) rest of
                  (zs, out, n) \<Rightarrow> (ys @ zs, out, Suc n)))"

definition streamChatMessage :: "(string \<Rightarrow> json option) \<Rightarrow> response \<Rightarrow> gen_result" where
  "streamChatMessage parse resp =
     (if \<not> ok resp then \<lparr>yields = [], outcome = Threw ''Failed to send message'', reads = 0\<rparr>
      else case body resp of
        None \<Rightarrow> \<lparr>yields = [], outcome = Threw ''No response body'', reads = 0\<rparr>
      | Some (chunks, fin) \<Rightarrow>
          (case read_loop parse fin [] chunks of
             (ys, out, n) \<Rightarrow> \<lparr>yields = ys, outcome = out, reads = n\<rparr>))"


text \<open>
  What the wire text holds, line by line. The complete lines of a text are the pieces
  before its last newline. A data frame is a line that, trimmed, starts with
  \<^verbatim>\<open>data: \<close> and has a non-empty trimmed payload: the literal \<^verbatim>\<open>[DONE]\<close>, or a
  payload that parses as JSON.
\<close>

datatype frame = FDone | FData json

definition complete_lines :: "string \<Rightarrow> string list" where
  "complete_lines text = butlast (split_on newline text)"

definition frame_of_line :: "(string \<Rightarrow> json option) \<Rightarrow> string \<Rightarrow> frame option" where
  "frame_of_line parse line =
     (let t = trim line in
      if startsWith t ''data: '' then
        (let d = trim (drop 6 t) in
         if d = ''[DONE]'' then Some FDone
         else if d = [] then None
         else map_option FData (parse d))
      else None)"

definition frames_of :: "(string \<Rightarrow> json option) \<Rightarrow> string \<Rightarrow> frame list" where
  "frames_of parse text = List.map_filter (frame_of_line parse) (complete_lines text)"

fun frame_content :: "frame \<Rightarrow> string option" where
  "frame_content (FData (JObject c e)) = c"
| "frame_content _ = None"

definition frames_before_done :: "(string \<Rightarrow> json option) \<Rightarrow> string \<Rightarrow> frame list" where
  "frames_before_done parse text = takeWhile (\<lambda>f. f \<noteq> FDone) (frames_of parse text)"

text \<open>
  A fragment of \<^verbatim>\<open>JSON.parse\<close> for evaluating the model at concrete wire text: the
  literal \<^verbatim>\<open>null\<close> and the two one-property envelopes whose string value needs no
  escape. Every other text is refused. The theorems below hold for any parser.
\<close>

definition plain_char :: "char \<Rightarrow> bool" where
  "plain_char c = (c \<noteq> CHR 0x22 \<and> c \<noteq> CHR 0x5C \<and> 32 \<le> (of_char c :: nat))"

definition unwrap :: "string \<Rightarrow> string \<Rightarrow> string \<Rightarrow> string option" where
  "unwrap pre post s =
     (if length pre + length post \<le> length s \<and> take (length pre) s = pre
         \<and> drop (length s - length post) s = post
      then Some (take (length s - length pre - length post) (drop (length pre) s))
      else None)"

definition parse_envelope :: "string \<Rightarrow> json option" where
  \<open>parse_envelope s =
     (if s = ''null'' then Some JNull
      else case unwrap ''{"content":"'' ''"}'' s of
        Some v \<Rightarrow> if list_all plain_char v then Some (JObject (Some v) None) else None
      | None \<Rightarrow>
          (case unwrap ''{"error":"'' ''"}'' s of
             Some v \<Rightarrow> if list_all plain_char v then Some (JObject None (Some v)) else None
           | None \<Rightarrow> None))\<close>


section \<open>The chat component: \<^verbatim>\<open>handleSend\<close> (ChatInterface)\<close>

datatype role = User | Assistant | System

text \<open>
  A message of the component's state. The \<^verbatim>\<open>timestamp\<close> field, a clock reading that
  \<^verbatim>\<open>handleSend\<close> never reads back, is left out; the identifier is the clock reading
  it is made from. A message that \<^verbatim>\<open>loadMessages\<close> maps from the server's answer keeps
  the role the server gave it.
\<close>

record message =
  msg_id :: int
  msg_role :: role
  msg_content :: string

record chat_ui =
  messages :: "message list"
  input :: string
  isStreaming :: bool

text \<open>The request that \<^verbatim>\<open>streamChatMessage\<close> posts.\<close>

record request =
  req_chatId :: string
  req_message :: string
  req_userId :: string
  req_fileIds :: "string list"

text \<open>
  The state updater of lines 327 to 334 and 338 to 345, run on the list that is current
  when React applies it: the content of the last message is replaced when that message
  is the assistant's. On an empty list \<^verbatim>\<open>updated[updated.length - 1]\<close> is undefined and
  reading its \<^verbatim>\<open>role\<close> raises TypeError.
\<close>

definition set_last_content :: "string \<Rightarrow> message list \<Rightarrow> js_exn + message list" where
  "set_last_content c ms =
     (if ms = [] then Inl TypeError
      else if msg_role (last ms) = Assistant
      then Inr (butlast ms @ [(last ms)\<lparr>msg_content := c\<rparr>])
      else Inr ms)"

text \<open>
  The effect of the same component (lines 280 to 298) runs \<^verbatim>\<open>loadMessages\<close> when the
  chat changes and on mount; when its fetch resolves it replaces the whole list
  (\<^verbatim>\<open>setMessages(chatMessages.map(...))\<close>, or \<^verbatim>\<open>setMessages([])\<close> on an error). The
  updaters of \<^verbatim>\<open>handleSend\<close> are queued one by one across the awaits of its loop, so
  such a replacement can fall between two of them. \<open>loaded i\<close> is the list that
  \<^verbatim>\<open>loadMessages\<close> set while \<^verbatim>\<open>handleSend\<close> was suspended at its await number \<open>i\<close>
  (the wait for chunk \<open>i\<close>, counted from 0, or for the end of the stream), \<open>None\<close>
  when none resolved then; of several, the last one stands.
\<close>

definition apply_load :: "message list option \<Rightarrow> message list \<Rightarrow> message list" where
  "apply_load l ms = (case l of None \<Rightarrow> ms | Some loadedMessages \<Rightarrow> loadedMessages)"

text \<open>
  The \<^verbatim>\<open>for await\<close> loop from await number \<open>i\<close> on: \<open>fullContent\<close> grows by each
  chunk and is stored each time by the updater. An updater that raises ends the run.
\<close>

fun consume :: "(nat \<Rightarrow> message list option) \<Rightarrow> nat \<Rightarrow> string \<Rightarrow> string list \<Rightarrow> message list
    \<Rightarrow> js_exn + (string \<times> message list)" where
  "consume loaded i fullContent [] ms = Inr (fullContent, apply_load (loaded i) ms)"
| "consume loaded i fullContent (chunk # rest) ms =
     (let fullContent' = fullContent @ chunk in
      case set_last_content fullContent' (apply_load (loaded i) ms) of
        Inl e \<Rightarrow> Inl e
      | Inr ms' \<Rightarrow> consume loaded (Suc i) fullContent' rest ms')"

definition sorry_text :: string where
  "sorry_text = ''Sorry, there was an error processing your request.''"

text \<open>
  \<^verbatim>\<open>handleSend\<close>: the new state and the requests posted, or the exception of an updater.
  The server's answer to a request is the parameter \<open>server\<close>; \<open>now1\<close> and \<open>now2\<close>
  are the two readings of \<^verbatim>\<open>Date.now()\<close>; \<open>loaded\<close> is what \<^verbatim>\<open>loadMessages\<close> set
  during the awaits. The two appends are queued before the first await, with nothing
  between them.
\<close>

definition handleSend :: "(string \<Rightarrow> json option) \<Rightarrow> (request \<Rightarrow> response) \<Rightarrow> string \<Rightarrow> string
    \<Rightarrow> string list \<Rightarrow> int \<Rightarrow> int \<Rightarrow> (nat \<Rightarrow> message list option) \<Rightarrow> chat_ui
    \<Rightarrow> js_exn + (chat_ui \<times> request list)" where
  "handleSend parse server chatId userId selectedFiles now1 now2 loaded st =
     (if trim (input st) = [] \<or> isStreaming st then Inr (st, [])
      else
        (let userMessage = \<lparr>msg_id = now1, msg_role = User, msg_content = input st\<rparr>;
             assistantMessage = \<lparr>msg_id = now2 + 1, msg_role = Assistant, msg_content = []\<rparr>;
             ms2 = (messages st @ [userMessage]) @ [assistantMessage];
             req = \<lparr>req_chatId = chatId, req_message = input st, req_userId = userId,
                    req_fileIds = selectedFiles\<rparr>;
             g = streamChatMessage parse (server req)
         in case consume loaded 0 [] (yields g) ms2 of
              Inl e \<Rightarrow> Inl e
            | Inr (fullContent, ms3) \<Rightarrow>
                (case outcome g of
                   Returned \<Rightarrow> Inr (\<lparr>messages = ms3, input = [], isStreaming = False\<rparr>, [req])
                 | Threw err \<Rightarrow>
                     (case set_last_content sorry_text ms3 of
                        Inl e \<Rightarrow> Inl e
                      | Inr ms4 \<Rightarrow>
                          Inr (\<lparr>messages = ms4, input = [], isStreaming = False\<rparr>, [req])))))"


section \<open>The database schema (backend/supabase.sql)\<close>

text \<open>
  Rows carry the columns that a key, a constraint or a policy of the schema mentions,
  and the text columns. Timestamps, \<^verbatim>\<open>metadata\<close>, \<^verbatim>\<open>file_size\<close> and \<^verbatim>\<open>mime_type\<close> are
  left out. A \<^verbatim>\<open>CHECK (... IN ...)\<close> column is a datatype; a nullable column is an
  option. A table is the list of its rows in insertion order.
\<close>

type_synonym uuid = nat

datatype message_role = RoleUser | RoleAssistant | RoleSystem

datatype file_status = Pending | Processing | Completed | Failed

record chat_row =
  chat_id :: uuid
  chat_user_id :: uuid
  chat_title :: "string option"

record message_row =
  message_id :: uuid
  message_chat_id :: uuid
  message_role :: message_role
  message_content :: string

record file_row =
  file_id :: uuid
  file_chat_id :: "uuid option"
  file_user_id :: uuid
  file_filename :: string
  file_path :: string
  file_status :: "file_status option"

record chunk_row =
  chunk_id :: uuid
  chunk_file_id :: uuid
  chunk_index :: int
  chunk_content :: string
  chunk_page_number :: "int option"

record db =
  db_chats :: "chat_row list"
  db_messages :: "message_row list"
  db_files :: "file_row list"
  db_file_chunks :: "chunk_row list"

text \<open>\<^verbatim>\<open>PRIMARY KEY\<close>: the identifiers of a table are pairwise distinct.\<close>

definition pk_ok :: "db \<Rightarrow> bool" where
  "pk_ok d = (distinct (map chat_id (db_chats d)) \<and> distinct (map message_id (db_messages d))
     \<and> distinct (map file_id (db_files d)) \<and> distinct (map chunk_id (db_file_chunks d)))"

text \<open>
  \<^verbatim>\<open>REFERENCES\<close>: \<^verbatim>\<open>messages.chat_id\<close> and \<^verbatim>\<open>files.chat_id\<close> (when not null) name a
  chat, \<^verbatim>\<open>file_chunks.file_id\<close> names a file.
\<close>

definition fk_ok :: "db \<Rightarrow> bool" where
  "fk_ok d =
     ((\<forall>m \<in> set (db_messages d). message_chat_id m \<in> chat_id ` set (db_chats d))
      \<and> (\<forall>f \<in> set (db_files d).
            case file_chat_id f of None \<Rightarrow> True | Some c \<Rightarrow> c \<in> chat_id ` set (db_chats d))
      \<and> (\<forall>k \<in> set (db_file_chunks d). chunk_file_id k \<in> file_id ` set (db_files d)))"

text \<open>
  \<^verbatim>\<open>DELETE FROM files WHERE P\<close>: \<^verbatim>\<open>file_chunks.file_id ... ON DELETE CASCADE\<close> deletes
  the chunks of every deleted file with it.
\<close>

definition delete_files :: "(file_row \<Rightarrow> bool) \<Rightarrow> db \<Rightarrow> db" where
  "delete_files P d =
     (let gone = filter P (db_files d) in
      d\<lparr>db_files := filter (\<lambda>f. \<not> P f) (db_files d),
        db_file_chunks := filter (\<lambda>k. chunk_file_id k \<notin> file_id ` set gone) (db_file_chunks d)\<rparr>)"

text \<open>
  \<^verbatim>\<open>DELETE FROM chats WHERE P\<close>: the messages and the files of a deleted chat go with
  it (both \<^verbatim>\<open>chat_id\<close> columns cascade), and with the files their chunks.
\<close>

definition delete_chats :: "(chat_row \<Rightarrow> bool) \<Rightarrow> db \<Rightarrow> db" where
  "delete_chats P d =
     (let gone = filter P (db_chats d) in
      delete_files
        (\<lambda>f. case file_chat_id f of None \<Rightarrow> False | Some c \<Rightarrow> c \<in> chat_id ` set gone)
        (d\<lparr>db_chats := filter (\<lambda>c. \<not> P c) (db_chats d),
           db_messages := filter (\<lambda>m. message_chat_id m \<notin> chat_id ` set gone) (db_messages d)\<rparr>))"

text \<open>
  A statement: an insert of one row, or an update or delete of the rows that satisfy its
  \<^verbatim>\<open>WHERE\<close> clause.
\<close>

datatype stmt =
    InsertChat chat_row
  | InsertMessage message_row
  | InsertFile file_row
  | InsertChunk chunk_row
  | UpdateChats "chat_row \<Rightarrow> bool" "chat_row \<Rightarrow> chat_row"
  | UpdateMessages "message_row \<Rightarrow> bool" "message_row \<Rightarrow> message_row"
  | UpdateFiles "file_row \<Rightarrow> bool" "file_row \<Rightarrow> file_row"
  | UpdateChunks "chunk_row \<Rightarrow> bool" "chunk_row \<Rightarrow> chunk_row"
  | DeleteChats "chat_row \<Rightarrow> bool"
  | DeleteMessages "message_row \<Rightarrow> bool"
  | DeleteFiles "file_row \<Rightarrow> bool"
  | DeleteChunks "chunk_row \<Rightarrow> bool"

fun apply_stmt :: "stmt \<Rightarrow> db \<Rightarrow> db" where
  "apply_stmt (InsertChat r) d = d\<lparr>db_chats := db_chats d @ [r]\<rparr>"
| "apply_stmt (InsertMessage r) d = d\<lparr>db_messages := db_messages d @ [r]\<rparr>"
| "apply_stmt (InsertFile r) d = d\<lparr>db_files := db_files d @ [r]\<rparr>"
| "apply_stmt (InsertChunk r) d = d\<lparr>db_file_chunks := db_file_chunks d @ [r]\<rparr>"
| "apply_stmt (UpdateChats P g) d = d\<lparr>db_chats := map (\<lambda>r. if P r then g r else r) (db_chats d)\<rparr>"
| "apply_stmt (UpdateMessages P g) d =
     d\<lparr>db_messages := map (\<lambda>r. if P r then g r else r) (db_messages d)\<rparr>"
| "apply_stmt (UpdateFiles P g) d = d\<lparr>db_files := map (\<lambda>r. if P r then g r else r) (db_files d)\<rparr>"
| "apply_stmt (UpdateChunks P g) d =
     d\<lparr>db_file_chunks := map (\<lambda>r. if P r then g r else r) (db_file_chunks d)\<rparr>"
| "apply_stmt (DeleteChats P) d = delete_chats P d"
| "apply_stmt (DeleteMessages P) d = d\<lparr>db_messages := filter (\<lambda>r. \<not> P r) (db_messages d)\<rparr>"
| "apply_stmt (DeleteFiles P) d = delete_files P d"
| "apply_stmt (DeleteChunks P) d = d\<lparr>db_file_chunks := filter (\<lambda>r. \<not> P r) (db_file_chunks d)\<rparr>"

text \<open>
  The constraints are checked at the end of the statement (an insert or an update that
  would break a key or leave a reference dangling is rejected: \<^verbatim>\<open>NO ACTION\<close> is the
  default for updates); a rejected statement is \<open>None\<close>.
\<close>

definition exec :: "stmt \<Rightarrow> db \<Rightarrow> db option" where
  "exec s d = (let d' = apply_stmt s d in if pk_ok d' \<and> fk_ok d' then Some d' else None)"

subsection \<open>Row-level security\<close>

datatype command = CmdSelect | CmdInsert | CmdUpdate | CmdDelete

text \<open>
  The policies of each table, by command: \<open>None\<close> where the schema creates no policy.
  \<open>uid\<close> is \<^verbatim>\<open>auth.uid()\<close>, null for a request without a session; a comparison with
  null is not true.
\<close>

definition chats_policy :: "command \<Rightarrow> (uuid option \<Rightarrow> db \<Rightarrow> chat_row \<Rightarrow> bool) option" where
  "chats_policy cmd =
     (case cmd of
        CmdSelect \<Rightarrow> Some (\<lambda>uid d c. uid = Some (chat_user_id c))
      | CmdInsert \<Rightarrow> Some (\<lambda>uid d c. uid = Some (chat_user_id c))
      | CmdUpdate \<Rightarrow> Some (\<lambda>uid d c. uid = Some (chat_user_id c))
      | CmdDelete \<Rightarrow> None)"

definition owns_chat :: "uuid option \<Rightarrow> db \<Rightarrow> uuid \<Rightarrow> bool" where
  "owns_chat uid d cid = (\<exists>c \<in> set (db_chats d). chat_id c = cid \<and> Some (chat_user_id c) = uid)"

definition messages_policy :: "command \<Rightarrow> (uuid option \<Rightarrow> db \<Rightarrow> message_row \<Rightarrow> bool) option" where
  "messages_policy cmd =
     (case cmd of
        CmdSelect \<Rightarrow> Some (\<lambda>uid d m. owns_chat uid d (message_chat_id m))
      | CmdInsert \<Rightarrow> Some (\<lambda>uid d m. owns_chat uid d (message_chat_id m))
      | CmdUpdate \<Rightarrow> None
      | CmdDelete \<Rightarrow> None)"

definition files_policy :: "command \<Rightarrow> (uuid option \<Rightarrow> db \<Rightarrow> file_row \<Rightarrow> bool) option" where
  "files_policy cmd = Some (\<lambda>uid d f. uid = Some (file_user_id f))"

definition owns_file :: "uuid option \<Rightarrow> db \<Rightarrow> uuid \<Rightarrow> bool" where
  "owns_file uid d fid = (\<exists>f \<in> set (db_files d). file_id f = fid \<and> Some (file_user_id f) = uid)"

definition chunks_policy :: "command \<Rightarrow> (uuid option \<Rightarrow> db \<Rightarrow> chunk_row \<Rightarrow> bool) option" where
  "chunks_policy cmd =
     (case cmd of
        CmdSelect \<Rightarrow> Some (\<lambda>uid d k. owns_file uid d (chunk_file_id k))
      | CmdInsert \<Rightarrow> Some (\<lambda>uid d k. owns_file uid d (chunk_file_id k))
      | CmdUpdate \<Rightarrow> None
      | CmdDelete \<Rightarrow> Some (\<lambda>uid d k. owns_file uid d (chunk_file_id k)))"

text \<open>With row-level security enabled, a command with no policy reaches no row.\<close>

definition allowed :: "(command \<Rightarrow> (uuid option \<Rightarrow> db \<Rightarrow> 'r \<Rightarrow> bool) option) \<Rightarrow> command
    \<Rightarrow> uuid option \<Rightarrow> db \<Rightarrow> 'r \<Rightarrow> bool" where
  "allowed pol cmd uid d r = (case pol cmd of None \<Rightarrow> False | Some p \<Rightarrow> p uid d r)"

text \<open>
  A statement of a client, which connects with the anon key and the user's session: an
  insert must pass the \<^verbatim>\<open>WITH CHECK\<close> of the insert policy; an update or a delete
  reaches only the rows that pass the \<^verbatim>\<open>USING\<close> of its policy, and an updated row must
  pass it again (the check defaults to \<^verbatim>\<open>USING\<close>). Cascades run unrestricted.
\<close>

fun client_exec :: "uuid option \<Rightarrow> stmt \<Rightarrow> db \<Rightarrow> db option" where
  "client_exec uid (InsertChat r) d =
     (if allowed chats_policy CmdInsert uid d r then exec (InsertChat r) d else None)"
| "client_exec uid (InsertMessage r) d =
     (if allowed messages_policy CmdInsert uid d r then exec (InsertMessage r) d else None)"
| "client_exec uid (InsertFile r) d =
     (if allowed files_policy CmdInsert uid d r then exec (InsertFile r) d else None)"
| "client_exec uid (InsertChunk r) d =
     (if allowed chunks_policy CmdInsert uid d r then exec (InsertChunk r) d else None)"
| "client_exec uid (UpdateChats P g) d =
     (let Q = (\<lambda>r. P r \<and> allowed chats_policy CmdUpdate uid d r) in
      if list_all (\<lambda>r. Q r \<longrightarrow> allowed chats_policy CmdUpdate uid d (g r)) (db_chats d)
      then exec (UpdateChats Q g) d else None)"
| "client_exec uid (UpdateMessages P g) d =
     (let Q = (\<lambda>r. P r \<and> allowed messages_policy CmdUpdate uid d r) in
      if list_all (\<lambda>r. Q r \<longrightarrow> allowed messages_policy CmdUpdate uid d (g r)) (db_messages d)
      then exec (UpdateMessages Q g) d else None)"
| "client_exec uid (UpdateFiles P g) d =
     (let Q = (\<lambda>r. P r \<and> allowed files_policy CmdUpdate uid d r) in
      if list_all (\<lambda>r. Q r \<longrightarrow> allowed files_policy CmdUpdate uid d (g r)) (db_files d)
      then exec (UpdateFiles Q g) d else None)"
| "client_exec uid (UpdateChunks P g) d =
     (let Q = (\<lambda>r. P r \<and> allowed chunks_policy CmdUpdate uid d r) in
      if list_all (\<lambda>r. Q r \<longrightarrow> allowed chunks_policy CmdUpdate uid d (g r)) (db_file_chunks d)
      then exec (UpdateChunks Q g) d else None)"
| "client_exec uid (DeleteChats P) d =
     exec (DeleteChats (\<lambda>r. P r \<and> allowed chats_policy CmdDelete uid d r)) d"
| "client_exec uid (DeleteMessages P) d =
     exec (DeleteMessages (\<lambda>r. P r \<and> allowed messages_policy CmdDelete uid d r)) d"
| "client_exec uid (DeleteFiles P) d =
     exec (DeleteFiles (\<lambda>r. P r \<and> allowed files_policy CmdDelete uid d r)) d"
| "client_exec uid (DeleteChunks P) d =
     exec (DeleteChunks (\<lambda>r. P r \<and> allowed chunks_policy CmdDelete uid d r)) d"

text \<open>A session of client statements; a rejected statement leaves the database as it was.\<close>

fun client_run :: "(uuid option \<times> stmt) list \<Rightarrow> db \<Rightarrow> db" where
  "client_run [] d = d"
| "client_run ((uid, s) # rest) d =
     client_run rest (case client_exec uid s d of None \<Rightarrow> d | Some d' \<Rightarrow> d')"


section \<open>The relay: send-message\<close>

text \<open>
  The relay runs in the backend service, whose code is not among the source files: its
  definitions follow the specification (section 4.1 and section 6) and are marked so.
\<close>

datatype relay_error = NotFound | InvalidArgument | UpstreamUnavailable | UpstreamInterrupted

datatype sse_frame = ContentFrame string | ErrorFrame string | DoneFrame

definition relay_frames :: "string list \<Rightarrow> string option \<Rightarrow> sse_frame list" where
  \<comment> \<open>Modelled from the spec: the relay's event stream (steps 5 and 6), which is missing from
     the source files. One content frame per fragment of the provider, the provider's error
     as one error frame, then the terminal frame.\<close>
  "relay_frames fragments err =
     map ContentFrame fragments @ (case err of None \<Rightarrow> [] | Some e \<Rightarrow> [ErrorFrame e]) @ [DoneFrame]"

fun conforms :: "sse_frame list \<Rightarrow> bool" where
  \<comment> \<open>Modelled from the spec: the grammar of the response stream (section 6), whose producer
     is missing from the source files: zero or more content frames, optionally one error
     frame, then the terminal frame and nothing after it.\<close>
  "conforms [DoneFrame] = True"
| "conforms [ErrorFrame e, DoneFrame] = True"
| "conforms (ContentFrame c # fs) = conforms fs"
| "conforms _ = False"

definition valid_file :: "db \<Rightarrow> uuid \<Rightarrow> uuid \<Rightarrow> bool" where
  \<comment> \<open>Modelled from the spec: the relay's filter on \<^verbatim>\<open>file_ids\<close>, which is missing from the
     source files: the identifier of a completed file owned by the user.\<close>
  "valid_file d user_id fid =
     (\<exists>f \<in> set (db_files d). file_id f = fid \<and> file_user_id f = user_id
        \<and> file_status f = Some Completed)"

record excerpt =
  excerpt_label :: string
  excerpt_text :: string

definition excerpt_block :: "db \<Rightarrow> uuid \<Rightarrow> excerpt" where
  \<comment> \<open>Modelled from the spec: step 3 of the relay, which is missing from the source files. The
     chunks of the file in the order of their sequence index, concatenated, under the file's
     display name.\<close>
  "excerpt_block d fid =
     \<lparr>excerpt_label = (case find (\<lambda>f. file_id f = fid) (db_files d) of
                         None \<Rightarrow> [] | Some f \<Rightarrow> file_filename f),
      excerpt_text = concat (map chunk_content
                       (sort_key chunk_index (filter (\<lambda>k. chunk_file_id k = fid) (db_file_chunks d))))\<rparr>"

definition excerpt_blocks :: "db \<Rightarrow> uuid \<Rightarrow> uuid list \<Rightarrow> excerpt list" where
  \<comment> \<open>Modelled from the spec: step 3 of the relay, which is missing from the source files. One
     block for each valid identifier, in the order of \<^verbatim>\<open>file_ids\<close>; the others are dropped.\<close>
  "excerpt_blocks d user_id file_ids = map (excerpt_block d) (filter (valid_file d user_id) file_ids)"

record prompt =
  prompt_system :: string
  prompt_excerpts :: "excerpt list"
  prompt_history :: "message_row list"
  prompt_message :: string

text \<open>
  What the specification leaves to the deployment: the system instruction, the cap on
  the history, the model provider (the fragments it streams and the error it ends with,
  if any) and what to persist of an interrupted answer (an open question of the spec).
\<close>

record relay_config =
  cfg_system :: string
  cfg_cap :: nat
  cfg_provider :: "prompt \<Rightarrow> string list \<times> string option"
  cfg_partial :: "string \<Rightarrow> string option"

definition append_message :: "db \<Rightarrow> uuid \<Rightarrow> message_role \<Rightarrow> string \<Rightarrow> db" where
  \<comment> \<open>Modelled from the spec: \<^verbatim>\<open>append_message\<close> of the message store (section 6), which is
     missing from the source files. The new row gets an unused identifier.\<close>
  "append_message d cid r text =
     d\<lparr>db_messages := db_messages d @
        [\<lparr>message_id = Suc (fold max (map message_id (db_messages d)) 0), message_chat_id = cid,
          message_role = r, message_content = text\<rparr>]\<rparr>"

definition capped_history :: "nat \<Rightarrow> db \<Rightarrow> uuid \<Rightarrow> message_row list" where
  \<comment> \<open>Modelled from the spec: step 2 of the relay, which is missing from the source files. The
     most recent \<open>cap\<close> messages of the chat, oldest first.\<close>
  "capped_history cap d cid =
     (let h = filter (\<lambda>m. message_chat_id m = cid) (db_messages d) in drop (length h - cap) h)"

definition send_message :: "relay_config \<Rightarrow> db \<Rightarrow> uuid \<Rightarrow> uuid \<Rightarrow> string \<Rightarrow> uuid list
    \<Rightarrow> db \<times> (relay_error + sse_frame list)" where
  \<comment> \<open>Modelled from the spec: the relay (section 4.1), which is missing from the source files.
     The result is the store after the call and either the upfront failure or the frames of
     the opened stream. The spec gives no order between its two input checks; the check of
     the argument, which needs no store, comes first.\<close>
  "send_message cfg d cid user_id message_text file_ids =
     (if trim message_text = [] then (d, Inl InvalidArgument)
      else if \<not> (\<exists>c \<in> set (db_chats d). chat_id c = cid \<and> chat_user_id c = user_id)
      then (d, Inl NotFound)
      else
        (let d1 = append_message d cid RoleUser message_text;
             p = \<lparr>prompt_system = cfg_system cfg,
                  prompt_excerpts = excerpt_blocks d user_id file_ids,
                  prompt_history = capped_history (cfg_cap cfg) d cid,
                  prompt_message = message_text\<rparr>
         in case cfg_provider cfg p of
              (fragments, None) \<Rightarrow>
                (append_message d1 cid RoleAssistant (concat fragments),
                 Inr (relay_frames fragments None))
            | (fragments, Some e) \<Rightarrow>
                if fragments = [] then (d1, Inl UpstreamUnavailable)
                else ((case cfg_partial cfg (concat fragments) of
                         None \<Rightarrow> d1
                       | Some text \<Rightarrow> append_message d1 cid RoleAssistant text),
                      Inr (relay_frames fragments (Some e)))))"


section \<open>The selected files of the chat page\<close>

text \<open>A file as \<^verbatim>\<open>getUserFiles\<close> reports it: the fields the selection reads.\<close>

record ui_file =
  uf_id :: string
  uf_status :: string

text \<open>\<^verbatim>\<open>handleFileSelect\<close> of the chat page toggles an identifier.\<close>

definition handleFileSelect :: "string \<Rightarrow> string list \<Rightarrow> string list" where
  "handleFileSelect fileId prev =
     (if fileId \<in> set prev then filter (\<lambda>i. i \<noteq> fileId) prev else prev @ [fileId])"

text \<open>\<^verbatim>\<open>loadChatFiles\<close>, once \<^verbatim>\<open>getUserFiles\<close> has answered: the new selection.\<close>

definition loadChatFiles :: "ui_file list \<Rightarrow> string list" where
  "loadChatFiles files = map uf_id (filter (\<lambda>f. uf_status f = ''completed'') files)"

text \<open>
  Every place that sets \<^verbatim>\<open>selectedFiles\<close>: \<^verbatim>\<open>loadChatFiles\<close> after its fetch (a failed
  fetch sets nothing); \<^verbatim>\<open>setSelectedFiles([])\<close> (no chat, a new chat, the current chat
  deleted); a click on a row of \<^verbatim>\<open>FileList\<close>; and the \<^verbatim>\<open>onFileUploaded\<close> callback of the
  chat component, which \<^verbatim>\<open>FileUpload\<close> calls once \<^verbatim>\<open>ingestFile\<close> has resolved, with the
  identifier of the upload. The second argument of \<open>FileUploaded\<close> is the
  \<^verbatim>\<open>status\<close> field of \<^verbatim>\<open>ingestFile\<close>'s answer, which the callers discard.
\<close>

datatype sel_event =
    ChatFilesLoaded "ui_file list"
  | SelectionCleared
  | FileClicked ui_file
  | FileUploaded string string

fun sel_step :: "sel_event \<Rightarrow> string list \<Rightarrow> string list" where
  "sel_step (ChatFilesLoaded files) sel = loadChatFiles files"
| "sel_step SelectionCleared sel = []"
| "sel_step (FileClicked f) sel =
     (if uf_status f = ''completed'' then handleFileSelect (uf_id f) sel else sel)"
| "sel_step (FileUploaded fileId status) sel = handleFileSelect fileId sel"

fun sel_run :: "sel_event list \<Rightarrow> string list \<Rightarrow> string list" where
  "sel_run [] sel = sel"
| "sel_run (ev # evs) sel = sel_run evs (sel_step ev sel)"

text \<open>An event that shows the file as completed to the client.\<close>

fun shows_completed :: "sel_event \<Rightarrow> string \<Rightarrow> bool" where
  "shows_completed (ChatFilesLoaded files) fid =
     (\<exists>f \<in> set files. uf_id f = fid \<and> uf_status f = ''completed'')"
| "shows_completed SelectionCleared fid = False"
| "shows_completed (FileClicked f) fid = (uf_id f = fid \<and> uf_status f = ''completed'')"
| "shows_completed (FileUploaded fileId status) fid = (fileId = fid \<and> status = ''completed'')"

fun is_upload_of :: "sel_event \<Rightarrow> string \<Rightarrow> bool" where
  "is_upload_of (FileUploaded fileId status) fid = (fileId = fid)"
| "is_upload_of _ fid = False"


section \<open>The admin file listing: \<^verbatim>\<open>GET\<close> (app/api/admin/files/route.ts)\<close>

text \<open>An awaited call either throws or gives its value.\<close>

datatype 'a attempt = Throws | Gives 'a

text \<open>
  The three calls of the Supabase client, as the handler reads their answers:
  \<^verbatim>\<open>auth.getUser(token)\<close> gives the user's id (or none) and the error (or none); the
  profile query gives the profile's role, for no profile \<open>None\<close>, for a null role
  \<open>Some None\<close>; the file query gives the rows (or null) and the error (or none).
\<close>

record 'f supabase =
  auth_getUser :: "string \<Rightarrow> (string option \<times> string option) attempt"
  profile_role :: "string \<Rightarrow> string option option attempt"
  user_files :: "('f list option \<times> string option) attempt"

datatype 'f payload = ErrorBody string | FilesBody "'f list"

record 'f http_response =
  status :: nat
  payload :: "'f payload"

text \<open>\<^verbatim>\<open>s.replace(pat, rep)\<close> with a string pattern replaces its first occurrence.\<close>

fun replace_first :: "string \<Rightarrow> string \<Rightarrow> string \<Rightarrow> string" where
  "replace_first pat rep [] = (if pat = [] then rep else [])"
| "replace_first pat rep (x # xs) =
     (if startsWith (x # xs) pat then rep @ drop (length pat) (x # xs)
      else x # replace_first pat rep xs)"

definition GET :: "'f supabase \<Rightarrow> string option \<Rightarrow> 'f http_response" where
  "GET sb authorization =
     (case authorization of
        None \<Rightarrow> \<lparr>status = 401, payload = ErrorBody ''Unauthorized''\<rparr>
      | Some authHeader \<Rightarrow>
          if authHeader = [] then \<lparr>status = 401, payload = ErrorBody ''Unauthorized''\<rparr>
          else
            (case auth_getUser sb (replace_first ''Bearer '' [] authHeader) of
               Throws \<Rightarrow> \<lparr>status = 500, payload = ErrorBody ''Internal server error''\<rparr>
             | Gives (user, authError) \<Rightarrow>
                 (case (authError, user) of
                    (None, Some uid) \<Rightarrow>
                      (case profile_role sb uid of
                         Throws \<Rightarrow> \<lparr>status = 500, payload = ErrorBody ''Internal server error''\<rparr>
                       | Gives profile \<Rightarrow>
                           if (case profile of None \<Rightarrow> None | Some r \<Rightarrow> r) \<noteq> Some ''admin''
                           then \<lparr>status = 403, payload = ErrorBody ''Forbidden - Admin only''\<rparr>
                           else
                             (case user_files sb of
                                Throws \<Rightarrow>
                                  \<lparr>status = 500, payload = ErrorBody ''Internal server error''\<rparr>
                              | Gives (files, error) \<Rightarrow>
                                  if error \<noteq> None
                                  then \<lparr>status = 500, payload = ErrorBody ''Failed to fetch files''\<rparr>
                                  else \<lparr>status = 200,
                                        payload = FilesBody (case files of None \<Rightarrow> [] | Some fs \<Rightarrow> fs)\<rparr>))
                  | _ \<Rightarrow> \<lparr>status = 401, payload = ErrorBody ''Unauthorized''\<rparr>)))"


section \<open>Auxiliary definitions\<close>

text \<open>A session of statements run with full rights; a rejected statement changes nothing.\<close>

fun exec_run :: "stmt list \<Rightarrow> db \<Rightarrow> db" where
  "exec_run [] d = d"
| "exec_run (s # ss) d = exec_run ss (case exec s d of None \<Rightarrow> d | Some d' \<Rightarrow> d')"

text \<open>What one data frame makes the reader yield.\<close>

definition content_yield :: "frame \<Rightarrow> string list" where
  "content_yield f = (case frame_content f of None \<Rightarrow> [] | Some s \<Rightarrow> if s \<noteq> [] then [s] else [])"

text \<open>How the generator ends, read off the whole text of the body.\<close>

definition text_outcome :: "(string \<Rightarrow> json option) \<Rightarrow> read_end \<Rightarrow> string \<Rightarrow> gen_outcome" where
  "text_outcome parse fin text =
     (if snd (process_lines parse (complete_lines text)) then Returned
      else case fin of EndOfStream \<Rightarrow> Returned | ReadFailed e \<Rightarrow> Threw e)"


section \<open>Sample data\<close>

definition sample_wire :: string where
  \<open>sample_wire = ''data: {"content":"Hi"}'' @ [newline, newline]
     @ ''data: {"error":"boom"}'' @ [newline, newline]
     @ ''data: {"content":" there"}'' @ [newline, newline]
     @ ''data: [DONE]'' @ [newline, newline]\<close>

definition empty_content_wire :: string where
  \<open>empty_content_wire = ''data: {"content":""}'' @ [newline] @ ''data: [DONE]'' @ [newline]\<close>








definition interrupted_cfg :: relay_config where
  "interrupted_cfg = \<lparr>cfg_system = ''Answer only from the excerpts.'', cfg_cap = 20,
                       cfg_provider = (\<lambda>p. ([''30 ''], Some ''timeout'')),
                       cfg_partial = (\<lambda>s. None)\<rparr>"

definition sample_db :: db where
  "sample_db =
     \<lparr>db_chats = [\<lparr>chat_id = 1, chat_user_id = 10, chat_title = Some ''Lease''\<rparr>],
      db_messages = [\<lparr>message_id = 1, message_chat_id = 1, message_role = RoleUser,
                      message_content = ''What is the termination clause?''\<rparr>],
      db_files =
        [\<lparr>file_id = 5, file_chat_id = Some 1, file_user_id = 10, file_filename = ''lease.pdf'',
          file_path = ''10/lease.pdf'', file_status = Some Completed\<rparr>,
         \<lparr>file_id = 6, file_chat_id = None, file_user_id = 11, file_filename = ''other.pdf'',
          file_path = ''11/other.pdf'', file_status = Some Processing\<rparr>],
      db_file_chunks =
        [\<lparr>chunk_id = 2, chunk_file_id = 5, chunk_index = 1, chunk_content = ''30 days notice.'',
          chunk_page_number = Some 1\<rparr>,
         \<lparr>chunk_id = 1, chunk_file_id = 5, chunk_index = 0,
          chunk_content = ''Clause 4: either party may terminate with '', chunk_page_number = Some 1\<rparr>,
         \<lparr>chunk_id = 3, chunk_file_id = 6, chunk_index = 0, chunk_content = ''Draft'',
          chunk_page_number = None\<rparr>]\<rparr>"

definition sample_cfg :: relay_config where
  "sample_cfg = \<lparr>cfg_system = ''Answer only from the excerpts.'', cfg_cap = 20,
                  cfg_provider = (\<lambda>p. ([''30 '', ''days''], None)), cfg_partial = (\<lambda>s. None)\<rparr>"

definition sample_ops :: "(uuid option \<times> stmt) list" where
  "sample_ops =
     [(Some 10, UpdateMessages (\<lambda>m. True) (\<lambda>m. m\<lparr>message_content := ''edited''\<rparr>)),
      (Some 10, DeleteMessages (\<lambda>m. True)),
      (Some 10, DeleteChats (\<lambda>c. True)),
      (Some 10, InsertMessage \<lparr>message_id = 2, message_chat_id = 1, message_role = RoleUser,
                               message_content = ''And the notice period?''\<rparr>)]"

definition sample_supabase :: "string supabase" where
  "sample_supabase =
     \<lparr>auth_getUser = (\<lambda>t. if t = ''tok-admin'' then Gives (Some ''u-admin'', None)
                          else if t = ''tok-user'' then Gives (Some ''u-user'', None)
                          else Gives (None, Some ''invalid JWT'')),
      profile_role = (\<lambda>u. if u = ''u-admin'' then Gives (Some (Some ''admin''))
                          else Gives (Some (Some ''user''))),
      user_files = Gives (Some [''lease.pdf''], None)\<rparr>"

definition sample_stmts :: "stmt list" where
  "sample_stmts =
     [InsertChunk \<lparr>chunk_id = 4, chunk_file_id = 9, chunk_index = 0, chunk_content = ''orphan'',
                   chunk_page_number = None\<rparr>,
      DeleteChats (\<lambda>c. chat_id c = 1)]"


section \<open>Results\<close>

subsection \<open>Splitting into lines commutes with chunking\<close>

lemma split_on_ne: "split_on c s \<noteq> []"
  by (induction s) (auto split: list.splits)

lemma split_on_append:
  "split_on c (a @ b) = butlast (split_on c a) @ split_on c (last (split_on c a) @ b)"
proof (induction a)
  case Nil
  then show ?case by simp
next
  case (Cons x a)
  show ?case
  proof (cases "x = c")
    case True
    then show ?thesis using Cons split_on_ne[of c a] by simp
  next
    case False
    obtain l ls where sp: "split_on c a = l # ls"
      using split_on_ne[of c a] by (cases "split_on c a") auto
    show ?thesis
    proof (cases ls)
      case Nil
      then show ?thesis using False sp Cons by (simp split: list.splits)
    next
      case (Cons m ms)
      then show ?thesis using False sp Cons.IH split_on_ne[of c "last (m # ms) @ b"]
        by (auto split: list.splits)
    qed
  qed
qed

lemma last_split_no_sep: "c \<notin> set (last (split_on c s))"
  by (induction s) (auto split: list.splits simp: split_on_ne)

lemma split_on_no_sep: "c \<notin> set s \<Longrightarrow> split_on c s = [s]"
  by (induction s) auto

lemma process_lines_append:
  "process_lines parse (xs @ ys) =
     (if snd (process_lines parse xs) then process_lines parse xs
      else (fst (process_lines parse xs) @ fst (process_lines parse ys),
            snd (process_lines parse ys)))"
  by (induction xs) (auto split: line_result.splits prod.splits)

lemma complete_lines_append:
  "complete_lines (a @ b) = complete_lines a @ complete_lines (pop_or_empty (split_on newline a) @ b)"
  unfolding complete_lines_def pop_or_empty_def
  by (simp add: split_on_ne split_on_append[of newline a b] butlast_append)

lemma complete_lines_buffer:
  "complete_lines (pop_or_empty (split_on newline a)) = []"
  unfolding complete_lines_def pop_or_empty_def
  by (simp add: split_on_ne split_on_no_sep[OF last_split_no_sep])

lemma read_loop_text:
  "complete_lines buffer = [] \<Longrightarrow>
   fst (read_loop parse fin buffer chunks) = fst (process_lines parse (complete_lines (buffer @ concat chunks)))
   \<and> fst (snd (read_loop parse fin buffer chunks)) = text_outcome parse fin (buffer @ concat chunks)"
proof (induction chunks arbitrary: buffer)
  case Nil
  then show ?case by (simp add: text_outcome_def split: read_end.splits)
next
  case (Cons chunk rest)
  let ?b = "pop_or_empty (split_on newline (buffer @ chunk))"
  have cl: "complete_lines ((buffer @ chunk) @ concat rest) =
            complete_lines (buffer @ chunk) @ complete_lines (?b @ concat rest)"
    by (rule complete_lines_append)
  have ih: "fst (read_loop parse fin ?b rest) = fst (process_lines parse (complete_lines (?b @ concat rest)))
     \<and> fst (snd (read_loop parse fin ?b rest)) = text_outcome parse fin (?b @ concat rest)"
    by (rule Cons.IH) (rule complete_lines_buffer)
  show ?case
    using ih cl
    by (auto simp: Let_def complete_lines_def[of "buffer @ chunk"] process_lines_append text_outcome_def
        split: prod.splits)
qed

subsection \<open>The reader in terms of frames\<close>

lemma handle_line_frame:
  "handle_line parse l =
     (case frame_of_line parse l of
        None \<Rightarrow> Continue []
      | Some FDone \<Rightarrow> Return
      | Some (FData j) \<Rightarrow> Continue (content_yield (FData j)))"
proof (cases "parse (trim (drop 6 (trim l)))")
  case None
  then show ?thesis
    by (auto simp: handle_line_def frame_of_line_def Let_def try_body_def startsWith_def)
next
  case (Some j)
  then show ?thesis
    by (cases j)
       (auto simp: handle_line_def frame_of_line_def Let_def try_body_def content_yield_def
             startsWith_def split: option.splits)
qed

lemma process_lines_frames:
  "process_lines parse ls =
     (concat (map content_yield (takeWhile (\<lambda>f. f \<noteq> FDone) (List.map_filter (frame_of_line parse) ls))),
      FDone \<in> set (List.map_filter (frame_of_line parse) ls))"
proof (induction ls)
  case Nil
  then show ?case by (simp add: map_filter_simps)
next
  case (Cons l ls)
  show ?case
  proof (cases "frame_of_line parse l")
    case None
    then show ?thesis using Cons by (simp add: handle_line_frame map_filter_simps)
  next
    case (Some f)
    then show ?thesis using Cons by (cases f) (auto simp: handle_line_frame map_filter_simps)
  qed
qed

lemma concat_content_yield:
  "concat (map content_yield fs) = filter (\<lambda>s. s \<noteq> []) (List.map_filter frame_content fs)"
  by (induction fs) (auto simp: content_yield_def map_filter_simps split: option.splits)

lemma stream_yields_frames:
  "yields (streamChatMessage parse \<lparr>ok = True, body = Some (chunks, fin)\<rparr>) =
     filter (\<lambda>s. s \<noteq> []) (List.map_filter frame_content (frames_before_done parse (concat chunks)))"
proof -
  have "complete_lines [] = []" by (simp add: complete_lines_def)
  from read_loop_text[OF this, of parse fin chunks]
  show ?thesis
    by (auto simp: streamChatMessage_def process_lines_frames concat_content_yield
        frames_before_done_def frames_of_def split: prod.splits)
qed

lemma stream_outcome_frames:
  "outcome (streamChatMessage parse \<lparr>ok = True, body = Some (chunks, fin)\<rparr>) =
     (if FDone \<in> set (frames_of parse (concat chunks)) then Returned
      else case fin of EndOfStream \<Rightarrow> Returned | ReadFailed e \<Rightarrow> Threw e)"
proof -
  have "complete_lines [] = []" by (simp add: complete_lines_def)
  from read_loop_text[OF this, of parse fin chunks]
  show ?thesis
    by (auto simp: streamChatMessage_def process_lines_frames text_outcome_def
        frames_of_def split: prod.splits)
qed


lemma conforms_relay_frames: "conforms (relay_frames fragments err)"
  by (induction fragments) (auto simp: relay_frames_def split: option.splits)

lemma send_message_conforms:
  "snd (send_message cfg d cid user_id message_text file_ids) = Inr frames \<Longrightarrow> conforms frames"
  by (auto simp: send_message_def Let_def conforms_relay_frames
      split: if_splits prod.splits option.splits)


subsection \<open>The selection, the schema and the policies\<close>

lemma excerpt_blocks_drop_invalid:
  "\<not> valid_file d user_id fid \<Longrightarrow>
     excerpt_blocks d user_id (xs @ fid # ys) = excerpt_blocks d user_id (xs @ ys)"
  by (simp add: excerpt_blocks_def)

lemma sel_step_origin:
  "fid \<in> set (sel_step ev sel) \<Longrightarrow> fid \<in> set sel \<or> shows_completed ev fid \<or> is_upload_of ev fid"
  by (cases ev) (auto simp: loadChatFiles_def handleFileSelect_def split: if_splits)

lemma sel_run_origin:
  "fid \<in> set (sel_run evs sel) \<Longrightarrow>
     fid \<in> set sel \<or> (\<exists>ev \<in> set evs. shows_completed ev fid \<or> is_upload_of ev fid)"
proof (induction evs arbitrary: sel)
  case Nil
  then show ?case by simp
next
  case (Cons ev evs)
  from Cons.IH[of "sel_step ev sel"] Cons.prems
  have "fid \<in> set (sel_step ev sel) \<or> (\<exists>e \<in> set evs. shows_completed e fid \<or> is_upload_of e fid)"
    by simp
  then show ?case
    using sel_step_origin[of fid ev sel] by auto
qed

lemma send_message_drop_invalid:
  assumes "\<not> valid_file d user_id fid"
  shows "send_message cfg d cid user_id text (xs @ fid # ys)
           = send_message cfg d cid user_id text (xs @ ys)"
proof -
  have e: "excerpt_blocks d user_id (xs @ fid # ys) = excerpt_blocks d user_id (xs @ ys)"
    by (rule excerpt_blocks_drop_invalid[OF assms])
  show ?thesis
    unfolding send_message_def e by (rule refl)
qed

lemma delete_files_pk: "pk_ok d \<Longrightarrow> pk_ok (delete_files P d)"
  by (auto simp: pk_ok_def delete_files_def Let_def distinct_map_filter)

lemma delete_files_fk: "fk_ok d \<Longrightarrow> fk_ok (delete_files P d)"
  unfolding fk_ok_def delete_files_def Let_def
  by (auto split: option.splits) force

lemma delete_files_no_chunk:
  "k \<in> set (db_file_chunks (delete_files P d)) \<Longrightarrow> f \<in> set (db_files d) \<Longrightarrow> P f \<Longrightarrow>
     chunk_file_id k \<noteq> file_id f"
  by (auto simp: delete_files_def Let_def)

lemma delete_chats_pk: "pk_ok d \<Longrightarrow> pk_ok (delete_chats P d)"
  by (auto simp: pk_ok_def delete_chats_def delete_files_def Let_def distinct_map_filter)

lemma delete_chats_fk: "fk_ok d \<Longrightarrow> fk_ok (delete_chats P d)"
  unfolding fk_ok_def delete_chats_def delete_files_def Let_def
  by (auto split: option.splits) force+

lemma delete_chats_no_chunk:
  "k \<in> set (db_file_chunks (delete_chats P d)) \<Longrightarrow> f \<in> set (db_files d) \<Longrightarrow>
   c \<in> set (db_chats d) \<Longrightarrow> P c \<Longrightarrow> file_chat_id f = Some (chat_id c) \<Longrightarrow>
     chunk_file_id k \<noteq> file_id f"
  by (auto simp: delete_chats_def delete_files_def Let_def)

lemma exec_fk: "exec s d = Some d' \<Longrightarrow> fk_ok d'"
  by (auto simp: exec_def Let_def split: if_splits)

lemma exec_run_fk: "fk_ok d \<Longrightarrow> fk_ok (exec_run ss d)"
proof (induction ss arbitrary: d)
  case Nil
  then show ?case by simp
next
  case (Cons s ss)
  show ?case
  proof (cases "exec s d")
    case None
    then show ?thesis using Cons by simp
  next
    case (Some d')
    then show ?thesis using Cons.IH[OF exec_fk[OF Some]] by simp
  qed
qed

lemma delete_files_messages: "db_messages (delete_files P d) = db_messages d"
  by (simp add: delete_files_def Let_def)

lemma client_exec_messages:
  assumes "client_exec uid s d = Some d'"
  shows "\<exists>new. db_messages d' = db_messages d @ new"
proof (cases s)
  case (DeleteChats P)
  then show ?thesis
    using assms
    by (auto simp: exec_def Let_def allowed_def chats_policy_def delete_chats_def
        delete_files_messages split: if_splits)
qed (use assms in \<open>auto simp: exec_def Let_def allowed_def messages_policy_def delete_files_messages
      split: if_splits\<close>)

lemma client_run_messages: "\<exists>new. db_messages (client_run ops d) = db_messages d @ new"
proof (induction ops arbitrary: d)
  case Nil
  then show ?case by simp
next
  case (Cons p ops)
  obtain uid s where p: "p = (uid, s)" by (cases p)
  show ?case
  proof (cases "client_exec uid s d")
    case None
    then show ?thesis using Cons[of d] p by simp
  next
    case (Some d')
    from client_exec_messages[OF Some] obtain n1 where "db_messages d' = db_messages d @ n1" ..
    moreover from Cons[of d'] obtain n2 where "db_messages (client_run ops d') = db_messages d' @ n2" ..
    ultimately show ?thesis using p Some by simp
  qed
qed

subsection \<open>The claims\<close>




text \<open>
  C2, as amended. Every stream that the relay opens is zero or more content frames,
  optionally one error frame, and the terminal \<^verbatim>\<open>[DONE]\<close> frame. For every text of the
  body and every way it arrives, \<open>streamChatMessage\<close> yields, in order, exactly the
  non-empty content fields of the JSON data frames that precede the first \<^verbatim>\<open>[DONE]\<close>
  frame, nothing from any later frame, and returns at that frame (without one it ends as
  the reading ends). Frames are read off the newline-terminated lines of the text.
\<close>

theorem C2_yields_nonempty_contents_before_done:
  "(snd (send_message cfg d cid user_id message_text file_ids) = Inr frames \<longrightarrow> conforms frames)
   \<and> yields (streamChatMessage parse \<lparr>ok = True, body = Some (chunks, fin)\<rparr>)
     = filter (\<lambda>s. s \<noteq> [])
         (List.map_filter frame_content (frames_before_done parse (concat chunks)))
   \<and> outcome (streamChatMessage parse \<lparr>ok = True, body = Some (chunks, fin)\<rparr>)
     = (if FDone \<in> set (frames_of parse (concat chunks)) then Returned
        else case fin of EndOfStream \<Rightarrow> Returned | ReadFailed e \<Rightarrow> Threw e)"
  using send_message_conforms[of cfg d cid user_id message_text file_ids frames]
  by (simp only: stream_yields_frames stream_outcome_frames) simp

theorem C2_yields_nonempty_contents_before_done_witness:
  "snd (send_message interrupted_cfg sample_db 1 10 ''hi'' [5])
     = Inr [ContentFrame ''30 '', ErrorFrame ''timeout'', DoneFrame]
   \<and> conforms [ContentFrame ''30 '', ErrorFrame ''timeout'', DoneFrame]
   \<and> yields (streamChatMessage parse_envelope
      \<lparr>ok = True, body = Some ([take 25 sample_wire, drop 25 sample_wire], EndOfStream)\<rparr>)
     = [''Hi'', '' there'']
   \<and> List.map_filter frame_content
        (frames_before_done parse_envelope (concat [take 25 sample_wire, drop 25 sample_wire]))
     = [''Hi'', '' there'']
   \<and> outcome (streamChatMessage parse_envelope
      \<lparr>ok = True, body = Some ([take 25 sample_wire, drop 25 sample_wire], EndOfStream)\<rparr>)
     = Returned"
proof -
  have r: "snd (send_message interrupted_cfg sample_db 1 10 ''hi'' [5])
     = Inr [ContentFrame ''30 '', ErrorFrame ''timeout'', DoneFrame]"
    by code_simp
  have f: "List.map_filter frame_content
        (frames_before_done parse_envelope (concat [take 25 sample_wire, drop 25 sample_wire]))
     = [''Hi'', '' there'']"
    by code_simp
  have d: "FDone \<in> set (frames_of parse_envelope (concat [take 25 sample_wire, drop 25 sample_wire]))"
    by code_simp
  from C2_yields_nonempty_contents_before_done
    [where parse = parse_envelope and chunks = "[take 25 sample_wire, drop 25 sample_wire]"
       and fin = EndOfStream and cfg = interrupted_cfg and d = sample_db and cid = 1
       and user_id = 10 and message_text = "''hi''" and file_ids = "[5]"
       and frames = "[ContentFrame ''30 '', ErrorFrame ''timeout'', DoneFrame]"] r f d
  show ?thesis by simp
qed

text \<open>
  As the claim is written, every content field is yielded. A frame whose content is the
  empty string is not: the guard \<^verbatim>\<open>if (parsed.content)\<close> skips it.
\<close>

theorem C2_empty_content_counterexample:
  "yields (streamChatMessage parse_envelope
      \<lparr>ok = True, body = Some ([empty_content_wire], EndOfStream)\<rparr>) = []
   \<and> List.map_filter frame_content (frames_before_done parse_envelope (concat [empty_content_wire]))
     = [[]]"
  by code_simp



text \<open>
  C4. When the HTTP response of send-message is not ok, \<open>streamChatMessage\<close> throws
  before any read of the response body and yields no content: whatever the body holds,
  the result has no yields, no reads, and the outcome is the thrown error.
\<close>

theorem C4_not_ok_throws_upfront:
  "\<not> ok resp \<Longrightarrow>
     streamChatMessage parse resp =
       \<lparr>yields = [], outcome = Threw ''Failed to send message'', reads = 0\<rparr>"
  by (simp add: streamChatMessage_def)

theorem C4_not_ok_throws_upfront_witness:
  "\<not> ok \<lparr>ok = False, body = Some ([sample_wire], EndOfStream)\<rparr>
   \<and> streamChatMessage parse_envelope \<lparr>ok = False, body = Some ([sample_wire], EndOfStream)\<rparr> =
       \<lparr>yields = [], outcome = Threw ''Failed to send message'', reads = 0\<rparr>"
  using C4_not_ok_throws_upfront
    [of "\<lparr>ok = False, body = Some ([sample_wire], EndOfStream)\<rparr>" parse_envelope]
  by simp

text \<open>
  C5. A message that is empty after trimming makes the relay fail with
  \<open>InvalidArgument\<close>, the store unchanged and no stream opened; on the client,
  \<open>handleSend\<close> with an input that is empty after trimming returns the state as it was
  and posts no request.
\<close>

theorem C5_blank_message_rejected:
  "(trim message_text = [] \<longrightarrow>
      send_message cfg d cid user_id message_text file_ids = (d, Inl InvalidArgument))
   \<and> (trim (input st) = [] \<longrightarrow>
      handleSend parse server chatId userId selectedFiles nowU nowA loaded st = Inr (st, []))"
  by (simp add: send_message_def handleSend_def)

theorem C5_blank_message_rejected_witness:
  "trim '' '' = []
   \<and> send_message sample_cfg sample_db 1 10 '' '' [] = (sample_db, Inl InvalidArgument)
   \<and> trim (input \<lparr>messages = [], input = [CHR 0x20, CHR 0x09, newline], isStreaming = False\<rparr>) = []
   \<and> handleSend parse_envelope (\<lambda>r. \<lparr>ok = True, body = Some ([sample_wire], EndOfStream)\<rparr>)
        ''c1'' ''u1'' [] 1000 1001 (\<lambda>i. None)
        \<lparr>messages = [], input = [CHR 0x20, CHR 0x09, newline], isStreaming = False\<rparr>
      = Inr (\<lparr>messages = [], input = [CHR 0x20, CHR 0x09, newline], isStreaming = False\<rparr>, [])"
proof -
  have t1: "trim '' '' = []" by code_simp
  have t2: "trim (input \<lparr>messages = [], input = [CHR 0x20, CHR 0x09, newline], isStreaming = False\<rparr>) = []"
    by code_simp
  from C5_blank_message_rejected[of "'' ''" sample_cfg sample_db 1 10 "[]"
      "\<lparr>messages = [], input = [CHR 0x20, CHR 0x09, newline], isStreaming = False\<rparr>"
      parse_envelope "\<lambda>r. \<lparr>ok = True, body = Some ([sample_wire], EndOfStream)\<rparr>"
      "''c1''" "''u1''" "[]" 1000 1001 "\<lambda>i. None"] t1 t2
  show ?thesis by simp
qed

text \<open>
  C6, as amended. An identifier of \<^verbatim>\<open>file_ids\<close> that is not a completed file of the user
  adds no excerpt and changes nothing in the relay's answer; on the client, an identifier
  in the selected files was selected before, or was shown as completed by the event that
  selected it, or is the identifier of an upload whose \<^verbatim>\<open>ingestFile\<close> call resolved.
\<close>

theorem C6_selection_origin:
  "(\<not> valid_file d user_id fid \<longrightarrow>
      excerpt_blocks d user_id (xs @ fid # ys) = excerpt_blocks d user_id (xs @ ys)
      \<and> send_message cfg d cid user_id message_text (xs @ fid # ys)
          = send_message cfg d cid user_id message_text (xs @ ys))
   \<and> (i \<in> set (sel_run evs sel) \<longrightarrow>
      i \<in> set sel \<or> (\<exists>ev \<in> set evs. shows_completed ev i \<or> is_upload_of ev i))"
  using excerpt_blocks_drop_invalid[of d user_id fid xs ys]
    send_message_drop_invalid[of d user_id fid cfg cid message_text xs ys]
    sel_run_origin[of i evs sel]
  by blast

text \<open>
  As the claim is written, only files seen as completed enter the selection. The upload
  callback selects the uploaded file whatever status \<^verbatim>\<open>ingestFile\<close> answered.
\<close>

theorem C6_upload_counterexample:
  "''f1'' \<in> set (sel_run [FileUploaded ''f1'' ''failed''] [])
   \<and> \<not> shows_completed (FileUploaded ''f1'' ''failed'') ''f1''"
  by (simp add: handleFileSelect_def)

theorem C6_selection_origin_witness:
  "\<not> valid_file sample_db 10 6
   \<and> excerpt_blocks sample_db 10 ([5] @ 6 # []) = excerpt_blocks sample_db 10 ([5] @ [])
   \<and> excerpt_blocks sample_db 10 ([5] @ 6 # [])
       = [\<lparr>excerpt_label = ''lease.pdf'',
           excerpt_text = ''Clause 4: either party may terminate with 30 days notice.''\<rparr>]
   \<and> send_message sample_cfg sample_db 1 10 ''hi'' ([5] @ 6 # [])
       = send_message sample_cfg sample_db 1 10 ''hi'' ([5] @ [])
   \<and> ''f5'' \<in> set (sel_run [ChatFilesLoaded [\<lparr>uf_id = ''f5'', uf_status = ''completed''\<rparr>,
                                                \<lparr>uf_id = ''f6'', uf_status = ''processing''\<rparr>],
                               FileClicked \<lparr>uf_id = ''f6'', uf_status = ''processing''\<rparr>] [])
   \<and> shows_completed (ChatFilesLoaded [\<lparr>uf_id = ''f5'', uf_status = ''completed''\<rparr>,
                                        \<lparr>uf_id = ''f6'', uf_status = ''processing''\<rparr>]) ''f5''"
proof -
  have v: "\<not> valid_file sample_db 10 6" by code_simp
  have e: "excerpt_blocks sample_db 10 ([5] @ [])
       = [\<lparr>excerpt_label = ''lease.pdf'',
           excerpt_text = ''Clause 4: either party may terminate with 30 days notice.''\<rparr>]"
    by code_simp
  have s: "''f5'' \<in> set (sel_run [ChatFilesLoaded [\<lparr>uf_id = ''f5'', uf_status = ''completed''\<rparr>,
                                                \<lparr>uf_id = ''f6'', uf_status = ''processing''\<rparr>],
                               FileClicked \<lparr>uf_id = ''f6'', uf_status = ''processing''\<rparr>] [])"
    by (simp add: loadChatFiles_def)
  from C6_selection_origin[of sample_db 10 6 "[5]" "[]" sample_cfg 1 "''hi''" "''f5''"
      "[ChatFilesLoaded [\<lparr>uf_id = ''f5'', uf_status = ''completed''\<rparr>,
                        \<lparr>uf_id = ''f6'', uf_status = ''processing''\<rparr>],
        FileClicked \<lparr>uf_id = ''f6'', uf_status = ''processing''\<rparr>]" "[]"] v e s
  show ?thesis by simp
qed

text \<open>
  C7. In a database that satisfies its keys and references, deleting files is accepted
  and removes every chunk of every deleted file; deleting chats is accepted and removes,
  with the files of the deleted chats, their chunks; and after any session of statements
  every chunk still has its parent file.
\<close>

theorem C7_file_delete_cascades:
  assumes "pk_ok d" and "fk_ok d"
  shows "exec (DeleteFiles P) d = Some (delete_files P d)
     \<and> (\<forall>k \<in> set (db_file_chunks (delete_files P d)).
           \<not> (\<exists>f \<in> set (db_files d). P f \<and> file_id f = chunk_file_id k))
     \<and> exec (DeleteChats Q) d = Some (delete_chats Q d)
     \<and> (\<forall>k \<in> set (db_file_chunks (delete_chats Q d)).
           \<not> (\<exists>f \<in> set (db_files d). \<exists>c \<in> set (db_chats d).
                 Q c \<and> file_chat_id f = Some (chat_id c) \<and> file_id f = chunk_file_id k))
     \<and> (\<forall>k \<in> set (db_file_chunks (exec_run ss d)).
           \<exists>f \<in> set (db_files (exec_run ss d)). file_id f = chunk_file_id k)"
proof -
  have a: "exec (DeleteFiles P) d = Some (delete_files P d)"
    using delete_files_pk[OF assms(1), of P] delete_files_fk[OF assms(2), of P]
    by (simp add: exec_def)
  have b: "\<forall>k \<in> set (db_file_chunks (delete_files P d)).
           \<not> (\<exists>f \<in> set (db_files d). P f \<and> file_id f = chunk_file_id k)"
    using delete_files_no_chunk[of _ P d] by metis
  have a': "exec (DeleteChats Q) d = Some (delete_chats Q d)"
    using delete_chats_pk[OF assms(1), of Q] delete_chats_fk[OF assms(2), of Q]
    by (simp add: exec_def)
  have b': "\<forall>k \<in> set (db_file_chunks (delete_chats Q d)).
           \<not> (\<exists>f \<in> set (db_files d). \<exists>c \<in> set (db_chats d).
                 Q c \<and> file_chat_id f = Some (chat_id c) \<and> file_id f = chunk_file_id k)"
    using delete_chats_no_chunk[of _ Q d] by metis
  have "fk_ok (exec_run ss d)"
    by (rule exec_run_fk[OF assms(2)])
  then have c: "\<forall>k \<in> set (db_file_chunks (exec_run ss d)).
           \<exists>f \<in> set (db_files (exec_run ss d)). file_id f = chunk_file_id k"
    unfolding fk_ok_def by force
  from a b a' b' c show ?thesis by blast
qed

theorem C7_file_delete_cascades_witness:
  "pk_ok sample_db \<and> fk_ok sample_db
   \<and> exec (DeleteFiles (\<lambda>f. file_id f = 5)) sample_db
       = Some (delete_files (\<lambda>f. file_id f = 5) sample_db)
   \<and> map chunk_id (db_file_chunks (delete_files (\<lambda>f. file_id f = 5) sample_db)) = [3]
   \<and> exec (DeleteChats (\<lambda>c. chat_id c = 1)) sample_db
       = Some (delete_chats (\<lambda>c. chat_id c = 1) sample_db)
   \<and> map chunk_id (db_file_chunks (delete_chats (\<lambda>c. chat_id c = 1) sample_db)) = [3]
   \<and> map file_id (db_files (exec_run sample_stmts sample_db)) = [6]
   \<and> map chunk_id (db_file_chunks (exec_run sample_stmts sample_db)) = [3]"
proof -
  have p: "pk_ok sample_db" by code_simp
  have f: "fk_ok sample_db" by code_simp
  have c: "map chunk_id (db_file_chunks (delete_files (\<lambda>f. file_id f = 5) sample_db)) = [3]"
    "map chunk_id (db_file_chunks (delete_chats (\<lambda>c. chat_id c = 1) sample_db)) = [3]"
    by code_simp+
  have r: "map file_id (db_files (exec_run sample_stmts sample_db)) = [6]"
    "map chunk_id (db_file_chunks (exec_run sample_stmts sample_db)) = [3]"
    by code_simp+
  from C7_file_delete_cascades
    [OF p f, of "\<lambda>f. file_id f = 5" "\<lambda>c. chat_id c = 1" sample_stmts] p f c r
  show ?thesis by simp
qed

text \<open>
  C8. The messages table has no update and no delete policy, and the chats table no
  delete policy; so after any session of client statements the messages that were in the
  table are still there, unchanged and in place: the table only grows at its end.
\<close>

theorem C8_messages_immutable:
  "messages_policy CmdUpdate = None \<and> messages_policy CmdDelete = None
   \<and> chats_policy CmdDelete = None
   \<and> (\<exists>new. db_messages (client_run ops d) = db_messages d @ new)"
  using client_run_messages[of ops d] by (simp add: messages_policy_def chats_policy_def)

theorem C8_messages_immutable_witness:
  "(\<exists>new. db_messages (client_run sample_ops sample_db) = db_messages sample_db @ new)
   \<and> db_messages (client_run sample_ops sample_db)
       = db_messages sample_db @
         [\<lparr>message_id = 2, message_chat_id = 1, message_role = RoleUser,
           message_content = ''And the notice period?''\<rparr>]
   \<and> db_chats (client_run sample_ops sample_db) = db_chats sample_db"
proof -
  have v: "db_messages (client_run sample_ops sample_db)
       = db_messages sample_db @
         [\<lparr>message_id = 2, message_chat_id = 1, message_role = RoleUser,
           message_content = ''And the notice period?''\<rparr>]"
    "db_chats (client_run sample_ops sample_db) = db_chats sample_db"
    by code_simp+
  from C8_messages_immutable[of sample_ops sample_db] v
  show ?thesis by simp
qed

text \<open>
  C9. Two ways of cutting the same body text into read chunks make \<open>streamChatMessage\<close>
  yield the same sequence of content strings and end the same way.
\<close>

theorem C9_chunking_insensitive:
  "concat chunks1 = concat chunks2 \<Longrightarrow>
     yields (streamChatMessage parse \<lparr>ok = b, body = Some (chunks1, fin)\<rparr>)
       = yields (streamChatMessage parse \<lparr>ok = b, body = Some (chunks2, fin)\<rparr>)
     \<and> outcome (streamChatMessage parse \<lparr>ok = b, body = Some (chunks1, fin)\<rparr>)
       = outcome (streamChatMessage parse \<lparr>ok = b, body = Some (chunks2, fin)\<rparr>)"
proof (cases b)
  case True
  assume "concat chunks1 = concat chunks2"
  with True show ?thesis
    by (simp only: stream_yields_frames stream_outcome_frames)
next
  case False
  then show ?thesis by (simp add: streamChatMessage_def)
qed

theorem C9_chunking_insensitive_witness:
  "concat [take 10 sample_wire, drop 10 sample_wire]
     = concat [take 30 sample_wire, take 20 (drop 30 sample_wire), [], drop 50 sample_wire]
   \<and> yields (streamChatMessage parse_envelope
        \<lparr>ok = True, body = Some ([take 10 sample_wire, drop 10 sample_wire], EndOfStream)\<rparr>)
     = yields (streamChatMessage parse_envelope
        \<lparr>ok = True, body = Some ([take 30 sample_wire, take 20 (drop 30 sample_wire), [],
             drop 50 sample_wire], EndOfStream)\<rparr>)
   \<and> yields (streamChatMessage parse_envelope
        \<lparr>ok = True, body = Some ([take 10 sample_wire, drop 10 sample_wire], EndOfStream)\<rparr>)
     = [''Hi'', '' there'']"
proof -
  have h: "concat [take 10 sample_wire, drop 10 sample_wire]
     = concat [take 30 sample_wire, take 20 (drop 30 sample_wire), [], drop 50 sample_wire]"
    by code_simp
  have v: "yields (streamChatMessage parse_envelope
        \<lparr>ok = True, body = Some ([take 10 sample_wire, drop 10 sample_wire], EndOfStream)\<rparr>)
     = [''Hi'', '' there'']"
    by code_simp
  from C9_chunking_insensitive[OF h, of parse_envelope True EndOfStream] h v
  show ?thesis by simp
qed

text \<open>
  C10. The handler answers 401 when the Authorization header is absent or empty, and when
  \<^verbatim>\<open>getUser\<close> reports an error or no user; it answers 403 when the verified user's
  profile role is not \<^verbatim>\<open>admin\<close>; and it answers 200 with the file list only for a
  verified user whose profile role is \<^verbatim>\<open>admin\<close>, always so when the file query gives
  no error.
\<close>

theorem C10_admin_files_authorization:
  "(authorization = None \<or> authorization = Some [] \<longrightarrow> status (GET sb authorization) = 401)
   \<and> (authorization = Some h \<and> h \<noteq> []
        \<and> auth_getUser sb (replace_first ''Bearer '' [] h) = Gives (user, authError)
        \<and> (authError \<noteq> None \<or> user = None)
      \<longrightarrow> status (GET sb authorization) = 401)
   \<and> (authorization = Some h \<and> h \<noteq> []
        \<and> auth_getUser sb (replace_first ''Bearer '' [] h) = Gives (Some uid, None)
        \<and> profile_role sb uid = Gives profile
        \<and> (case profile of None \<Rightarrow> None | Some r \<Rightarrow> r) \<noteq> Some ''admin''
      \<longrightarrow> status (GET sb authorization) = 403)
   \<and> (status (GET sb authorization) = 200 \<or> payload (GET sb authorization) = FilesBody fs
      \<longrightarrow> (\<exists>h' uid'. authorization = Some h' \<and> h' \<noteq> []
            \<and> auth_getUser sb (replace_first ''Bearer '' [] h') = Gives (Some uid', None)
            \<and> profile_role sb uid' = Gives (Some (Some ''admin''))))
   \<and> (authorization = Some h \<and> h \<noteq> []
        \<and> auth_getUser sb (replace_first ''Bearer '' [] h) = Gives (Some uid, None)
        \<and> profile_role sb uid = Gives (Some (Some ''admin''))
        \<and> user_files sb = Gives (files, None)
      \<longrightarrow> GET sb authorization
            = \<lparr>status = 200, payload = FilesBody (case files of None \<Rightarrow> [] | Some fs \<Rightarrow> fs)\<rparr>)"
proof -
  have a: "authorization = None \<or> authorization = Some [] \<longrightarrow> status (GET sb authorization) = 401"
    by (auto simp: GET_def)
  have b: "authorization = Some h \<and> h \<noteq> []
        \<and> auth_getUser sb (replace_first ''Bearer '' [] h) = Gives (user, authError)
        \<and> (authError \<noteq> None \<or> user = None)
      \<longrightarrow> status (GET sb authorization) = 401"
    by (auto simp: GET_def split: option.splits)
  have c: "authorization = Some h \<and> h \<noteq> []
        \<and> auth_getUser sb (replace_first ''Bearer '' [] h) = Gives (Some uid, None)
        \<and> profile_role sb uid = Gives profile
        \<and> (case profile of None \<Rightarrow> None | Some r \<Rightarrow> r) \<noteq> Some ''admin''
      \<longrightarrow> status (GET sb authorization) = 403"
    by (auto simp: GET_def split: option.splits)
  have d: "status (GET sb authorization) = 200 \<or> payload (GET sb authorization) = FilesBody fs
      \<longrightarrow> (\<exists>h' uid'. authorization = Some h' \<and> h' \<noteq> []
            \<and> auth_getUser sb (replace_first ''Bearer '' [] h') = Gives (Some uid', None)
            \<and> profile_role sb uid' = Gives (Some (Some ''admin'')))"
    by (auto simp: GET_def split: option.splits attempt.splits if_splits prod.splits)
  have e: "authorization = Some h \<and> h \<noteq> []
        \<and> auth_getUser sb (replace_first ''Bearer '' [] h) = Gives (Some uid, None)
        \<and> profile_role sb uid = Gives (Some (Some ''admin''))
        \<and> user_files sb = Gives (files, None)
      \<longrightarrow> GET sb authorization
            = \<lparr>status = 200, payload = FilesBody (case files of None \<Rightarrow> [] | Some fs \<Rightarrow> fs)\<rparr>"
    by (auto simp: GET_def split: option.splits)
  from a b c d e show ?thesis by blast
qed

theorem C10_admin_files_authorization_witness:
  "status (GET sample_supabase None) = 401
   \<and> status (GET sample_supabase (Some [])) = 401
   \<and> auth_getUser sample_supabase (replace_first ''Bearer '' [] ''Bearer forged'')
       = Gives (None, Some ''invalid JWT'')
   \<and> status (GET sample_supabase (Some ''Bearer forged'')) = 401
   \<and> auth_getUser sample_supabase (replace_first ''Bearer '' [] ''Bearer tok-user'')
       = Gives (Some ''u-user'', None)
   \<and> profile_role sample_supabase ''u-user'' = Gives (Some (Some ''user''))
   \<and> status (GET sample_supabase (Some ''Bearer tok-user'')) = 403
   \<and> GET sample_supabase (Some ''Bearer tok-admin'')
       = \<lparr>status = 200, payload = FilesBody [''lease.pdf'']\<rparr>"
proof -
  have g1: "auth_getUser sample_supabase (replace_first ''Bearer '' [] ''Bearer forged'')
       = Gives (None, Some ''invalid JWT'')"
    by code_simp
  have g2: "auth_getUser sample_supabase (replace_first ''Bearer '' [] ''Bearer tok-user'')
       = Gives (Some ''u-user'', None)"
    by code_simp
  have g3: "profile_role sample_supabase ''u-user'' = Gives (Some (Some ''user''))"
    by code_simp
  have g4: "auth_getUser sample_supabase (replace_first ''Bearer '' [] ''Bearer tok-admin'')
       = Gives (Some ''u-admin'', None)"
    by code_simp
  have g5: "profile_role sample_supabase ''u-admin'' = Gives (Some (Some ''admin''))"
    by code_simp
  have g6: "user_files sample_supabase = Gives (Some [''lease.pdf''], None)"
    by code_simp
  note t = C10_admin_files_authorization[where sb = sample_supabase]
  from t[of None] t[of "Some []"]
    t[of "Some ''Bearer forged''" "''Bearer forged''" None "Some ''invalid JWT''"]
    t[of "Some ''Bearer tok-user''" "''Bearer tok-user''" _ _ "''u-user''" "Some (Some ''user'')"]
    t[of "Some ''Bearer tok-admin''" "''Bearer tok-admin''" _ _ "''u-admin''" _ _ "Some [''lease.pdf'']"]
    g1 g2 g3 g4 g5 g6
  show ?thesis by simp
qed

end
